theory Spec2Isabelle
  imports Complex_Main
begin

section \<open>Mixed Effects Random Forest: a shallow embedding of merf.py\<close>

text \<open>
  The embedding follows \<^verbatim>\<open>src/merf/merf.py\<close>. NumPy floats are idealised as
  real numbers, a two-dimensional array is the list of its rows, a pandas Series of
  labels is a list. The operations of \<^verbatim>\<open>numpy.linalg\<close> and the random forest
  regressor are external collaborators: they are fields of a record that every
  operation of the model takes as its first argument.
\<close>

subsection \<open>Data\<close>

type_synonym vec = "real list"
type_synonym matrix = "real list list"

text \<open>A DataFrame indexed by cluster id: the rows with their index labels, in order.\<close>
type_synonym 'c table = "('c \<times> vec) list"

text \<open>DataFrames are objects: variables and history entries hold references to them.\<close>
type_synonym addr = nat

datatype py_error =
    AssertionError
  | NotFittedError
  | KeyError
  | IndexError
  | ValueError
  | AttributeError
  | ZeroDivisionError
  | UnboundLocalError

text \<open>
  The external collaborators. \<open>rf_fit n g X t\<close> is
  \<^verbatim>\<open>RandomForestRegressor(n_estimators=n, oob_score=True, n_jobs=-1).fit(X, t)\<close>;
  the forest is randomised, so the call consumes a generator state \<open>g\<close> and returns
  the next one. \<open>slogdet\<close> returns the pair (sign, log of the absolute value of the
  determinant).
\<close>
record ('rf, 'g) extern =
  pinv :: "matrix \<Rightarrow> matrix"
  slogdet :: "matrix \<Rightarrow> real \<times> real"
  rf_fit :: "nat \<Rightarrow> 'g \<Rightarrow> matrix \<Rightarrow> vec \<Rightarrow> 'rf \<times> 'g"
  oob_prediction :: "'rf \<Rightarrow> vec"
  rf_predict :: "'rf \<Rightarrow> matrix \<Rightarrow> vec"

text \<open>The attributes of a MERF instance.\<close>
record ('c, 'rf) merf =
  n_estimators :: nat
  min_iterations :: int
  gll_early_stop_threshold :: "real option"
  max_iterations :: int
  cluster_counts :: "('c \<times> nat) list option"
  trained_rf :: "'rf option"
  trained_b :: "addr option"
  b_hat_history :: "addr list"
  sigma2_hat_history :: "real list"
  D_hat_history :: "matrix list"
  gll_history :: "real list"

text \<open>
  Everything a method call can read or change: the instance, the store of DataFrame
  objects, the generator state of the regressor, and the number of regressor fits made
  so far.
\<close>
record ('c, 'rf, 'g) world =
  self :: "('c, 'rf) merf"
  heap :: "'c table list"
  rng :: 'g
  rf_calls :: nat

text \<open>The local variables of \<^verbatim>\<open>fit\<close> that the EM loop assigns; \<open>rf\<close> is unbound
  (\<open>None\<close>) until the first iteration binds it.\<close>
record 'rf locals =
  stop_flag :: bool
  iter_begun :: bool
  sigma2_hat :: real
  D_hat :: matrix
  rf :: "'rf option"

definition MERF_init :: "nat \<Rightarrow> int \<Rightarrow> real option \<Rightarrow> int \<Rightarrow> ('c, 'rf) merf" where
  "MERF_init n mi thr mx =
     \<lparr>n_estimators = n, min_iterations = mi, gll_early_stop_threshold = thr,
      max_iterations = mx, cluster_counts = None, trained_rf = None, trained_b = None,
      b_hat_history = [], sigma2_hat_history = [], D_hat_history = [], gll_history = []\<rparr>"

subsection \<open>Linear algebra on lists\<close>

definition dotv :: "vec \<Rightarrow> vec \<Rightarrow> real" where
  "dotv u v = sum_list (map2 (*) u v)"

definition vsub :: "vec \<Rightarrow> vec \<Rightarrow> vec" where
  "vsub u v = map2 (-) u v"

definition vadd :: "vec \<Rightarrow> vec \<Rightarrow> vec" where
  "vadd u v = map2 (+) u v"

definition ncols :: "matrix \<Rightarrow> nat" where
  "ncols A = (case A of [] \<Rightarrow> 0 | r # _ \<Rightarrow> length r)"

definition column :: "matrix \<Rightarrow> nat \<Rightarrow> vec" where
  "column A j = map (\<lambda>r. r ! j) A"

text \<open>\<open>A.dot(v)\<close> for a matrix and a vector.\<close>
definition mat_vec :: "matrix \<Rightarrow> vec \<Rightarrow> vec" where
  "mat_vec A v = map (\<lambda>r. dotv r v) A"

text \<open>\<open>v.T.dot(A)\<close> for a vector and a matrix.\<close>
definition vec_mat :: "vec \<Rightarrow> matrix \<Rightarrow> vec" where
  "vec_mat v A = map (\<lambda>j. dotv v (column A j)) [0..<ncols A]"

text \<open>\<open>A.dot(B)\<close>.\<close>
definition mat_mul :: "matrix \<Rightarrow> matrix \<Rightarrow> matrix" where
  "mat_mul A B = map (\<lambda>r. vec_mat r B) A"

text \<open>\<open>A.dot(B.T)\<close>: the entry (i, j) is the product of row i of A with row j of B.\<close>
definition mat_mul_T :: "matrix \<Rightarrow> matrix \<Rightarrow> matrix" where
  "mat_mul_T A B = map (\<lambda>r. map (\<lambda>s. dotv r s) B) A"

definition mat_add :: "matrix \<Rightarrow> matrix \<Rightarrow> matrix" where
  "mat_add A B = map2 vadd A B"

definition mat_sub :: "matrix \<Rightarrow> matrix \<Rightarrow> matrix" where
  "mat_sub A B = map2 vsub A B"

definition scal :: "real \<Rightarrow> matrix \<Rightarrow> matrix" where
  "scal c A = map (map (\<lambda>x. c * x)) A"

definition eye :: "nat \<Rightarrow> matrix" where
  "eye n = map (\<lambda>i. map (\<lambda>j. if i = j then 1 else 0) [0..<n]) [0..<n]"

definition outer :: "vec \<Rightarrow> vec \<Rightarrow> matrix" where
  "outer u v = map (\<lambda>x. map (\<lambda>y. x * y) v) u"

definition trace :: "matrix \<Rightarrow> real" where
  "trace A = sum_list (map (\<lambda>i. if i < length (A ! i) then A ! i ! i else 0) [0..<length A])"

subsection \<open>Labels, masks and tables\<close>

text \<open>\<open>clusters == cluster_id\<close>: one boolean per row.\<close>
definition eq_mask :: "'c list \<Rightarrow> 'c \<Rightarrow> bool list" where
  "eq_mask clusters cluster_id = map (\<lambda>c. c = cluster_id) clusters"

text \<open>\<open>a[indices]\<close> for a boolean mask as long as \<open>a\<close>.\<close>
definition select :: "'a list \<Rightarrow> bool list \<Rightarrow> 'a list" where
  "select a indices = map fst (filter snd (zip a indices))"

text \<open>\<open>a[indices] = v\<close>: the entries at the true positions are replaced, in order.\<close>
fun scatter :: "'a list \<Rightarrow> bool list \<Rightarrow> 'a list \<Rightarrow> 'a list" where
  "scatter (x # xs) (True # ms) (v # vs) = v # scatter xs ms vs"
| "scatter (x # xs) (False # ms) vs = x # scatter xs ms vs"
| "scatter xs ms vs = xs"

definition nunique :: "'c list \<Rightarrow> nat" where
  "nunique clusters = length (remdups clusters)"

text \<open>
  \<open>clusters.value_counts()\<close>: each distinct label with its number of rows, the most
  frequent first. The order among labels with equal counts is left to pandas; the model
  takes the order of first appearance. The labels are values of a type without a
  missing value, which pandas would drop from the counts.
\<close>
definition value_counts :: "'c list \<Rightarrow> ('c \<times> nat) list" where
  "value_counts clusters =
     sort_key (\<lambda>p. - int (snd p))
       (map (\<lambda>c. (c, count_list clusters c)) (rev (remdups (rev clusters))))"

text \<open>\<open>df.loc[cluster_id]\<close>; \<open>None\<close> stands for the KeyError of a missing label.\<close>
definition loc :: "'c table \<Rightarrow> 'c \<Rightarrow> vec option" where
  "loc df cluster_id = map_of df cluster_id"

text \<open>\<open>df.loc[cluster_id, :] = v\<close>: every row with that label is overwritten; a label
  that is missing is appended as a new row.\<close>
definition set_loc :: "'c table \<Rightarrow> 'c \<Rightarrow> vec \<Rightarrow> 'c table" where
  "set_loc df cluster_id v =
     (if cluster_id \<in> fst ` set df
      then map (\<lambda>(k, r). if k = cluster_id then (k, v) else (k, r)) df
      else df @ [(cluster_id, v)])"

subsection \<open>predict\<close>

text \<open>
  The loop of \<^verbatim>\<open>predict\<close> over \<open>self.cluster_counts.index\<close>; \<open>tb\<close> is the
  table that \<open>self.trained_b\<close> refers to, if it refers to one. Indexing an array with a
  mask of another length raises IndexError, a product of shapes that do not agree raises
  ValueError. The augmented assignment reads \<open>y_hat[indices_i]\<close> before it evaluates
  its right-hand side.
\<close>
fun predict_loop ::
  "'c table option \<Rightarrow> matrix \<Rightarrow> 'c list \<Rightarrow> 'c list \<Rightarrow> vec \<Rightarrow> py_error + vec" where
  "predict_loop tb Z clusters [] y_hat = Inr y_hat"
| "predict_loop tb Z clusters (cluster_id # rest) y_hat =
     (let indices_i = eq_mask clusters cluster_id in
      if length indices_i = 0 then predict_loop tb Z clusters rest y_hat
      else
        (case tb of
           None \<Rightarrow> Inl AttributeError
         | Some df \<Rightarrow>
             (case loc df cluster_id of
                None \<Rightarrow> Inl KeyError
              | Some b_i \<Rightarrow>
                  if length Z \<noteq> length indices_i then Inl IndexError
                  else
                    let Z_i = select Z indices_i in
                    if length y_hat \<noteq> length indices_i then Inl IndexError
                    else if ncols Z \<noteq> length b_i then Inl ValueError
                    else predict_loop tb Z clusters rest
                           (scatter y_hat indices_i
                              (vadd (select y_hat indices_i) (mat_vec Z_i b_i))))))"

text \<open>
  The method \<^verbatim>\<open>predict\<close>, in state-passing style: the result and the world after
  the call.
\<close>
definition predict ::
  "('rf, 'g) extern \<Rightarrow> matrix \<Rightarrow> matrix \<Rightarrow> 'c list \<Rightarrow> ('c, 'rf, 'g) world
     \<Rightarrow> (py_error + vec) \<times> ('c, 'rf, 'g) world" where
  "predict ext X Z clusters w =
     (case trained_rf (self w) of
        None \<Rightarrow> (Inl NotFittedError, w)
      | Some trf \<Rightarrow>
          let y_hat = rf_predict ext trf X in
          (case cluster_counts (self w) of
             None \<Rightarrow> (Inl AttributeError, w)
           | Some cc \<Rightarrow>
               (predict_loop (map_option (\<lambda>a. heap w ! a) (trained_b (self w)))
                  Z clusters (map fst cc) y_hat, w)))"

subsection \<open>fit\<close>

text \<open>
  The slices cached per cluster before the loop (\<open>Z_by_cluster\<close>, \<open>y_by_cluster\<close>,
  \<open>n_by_cluster\<close>, \<open>I_by_cluster\<close>, \<open>indices_by_cluster\<close>): each dictionary is filled
  for exactly the labels of \<open>cluster_counts.index\<close> and read only at those, so it is
  the function that computes its entries.
\<close>
definition indices_by_cluster :: "'c list \<Rightarrow> 'c \<Rightarrow> bool list" where
  "indices_by_cluster clusters cluster_id = eq_mask clusters cluster_id"

definition Z_by_cluster :: "matrix \<Rightarrow> 'c list \<Rightarrow> 'c \<Rightarrow> matrix" where
  "Z_by_cluster Z clusters cluster_id = select Z (eq_mask clusters cluster_id)"

definition y_by_cluster :: "vec \<Rightarrow> 'c list \<Rightarrow> 'c \<Rightarrow> vec" where
  "y_by_cluster y clusters cluster_id = select y (eq_mask clusters cluster_id)"

definition n_by_cluster :: "'c list \<Rightarrow> 'c \<Rightarrow> nat" where
  "n_by_cluster clusters cluster_id =
     (case map_of (value_counts clusters) cluster_id of Some n \<Rightarrow> n | None \<Rightarrow> 0)"

definition I_by_cluster :: "'c list \<Rightarrow> 'c \<Rightarrow> matrix" where
  "I_by_cluster clusters cluster_id = eye (n_by_cluster clusters cluster_id)"

text \<open>The E-step: \<open>y_star\<close> is filled cluster by cluster from the current table.\<close>
fun e_step :: "matrix \<Rightarrow> vec \<Rightarrow> 'c list \<Rightarrow> 'c table \<Rightarrow> 'c list \<Rightarrow> vec \<Rightarrow> vec option" where
  "e_step Z y clusters df [] y_star = Some y_star"
| "e_step Z y clusters df (cluster_id # rest) y_star =
     (let y_i = y_by_cluster y clusters cluster_id;
          Z_i = Z_by_cluster Z clusters cluster_id in
      case loc df cluster_id of
        None \<Rightarrow> None
      | Some b_hat_i \<Rightarrow>
          let indices_i = indices_by_cluster clusters cluster_id;
              y_star_i = vsub y_i (mat_vec Z_i b_hat_i)
          in e_step Z y clusters df rest (scatter y_star indices_i y_star_i))"

text \<open>
  \<open>D_hat_sum\<close> starts as the integer 0 (\<open>None\<close>) and becomes an array with the first
  cluster: adding an array to the scalar 0 gives that array.
\<close>
definition add0 :: "matrix option \<Rightarrow> matrix \<Rightarrow> matrix option" where
  "add0 acc M = (case acc of None \<Rightarrow> Some M | Some A \<Rightarrow> Some (mat_add A M))"

text \<open>
  The M-step loop. \<open>s2\<close> and \<open>D\<close> are the variables \<open>sigma2_hat\<close> and \<open>D_hat\<close>, which
  the loop reads and does not assign; \<open>a\<close> is the table \<open>b_hat_df\<close> refers to. The
  state of the loop is the store, \<open>sigma2_hat_sum\<close> and \<open>D_hat_sum\<close>.
\<close>
fun m_step ::
  "('rf, 'g) extern \<Rightarrow> matrix \<Rightarrow> vec \<Rightarrow> 'c list \<Rightarrow> vec \<Rightarrow> real \<Rightarrow> matrix \<Rightarrow> addr
     \<Rightarrow> 'c list \<Rightarrow> 'c table list \<times> real \<times> matrix option
     \<Rightarrow> 'c table list \<times> real \<times> matrix option" where
  "m_step ext Z y clusters f_hat s2 D a [] st = st"
| "m_step ext Z y clusters f_hat s2 D a (cluster_id # rest) (h, sigma2_hat_sum, D_hat_sum) =
     (let indices_i = indices_by_cluster clusters cluster_id;
          y_i = y_by_cluster y clusters cluster_id;
          Z_i = Z_by_cluster Z clusters cluster_id;
          n_i = n_by_cluster clusters cluster_id;
          I_i = I_by_cluster clusters cluster_id;
          f_hat_i = select f_hat indices_i;
          V_hat_i = mat_add (mat_mul_T (mat_mul Z_i D) Z_i) (scal s2 I_i);
          V_hat_inv_i = pinv ext V_hat_i;
          b_hat_i = mat_vec (mat_mul (mat_mul_T D Z_i) V_hat_inv_i) (vsub y_i f_hat_i);
          eps_hat_i = vsub (vsub y_i f_hat_i) (mat_vec Z_i b_hat_i);
          h' = h[a := set_loc (h ! a) cluster_id b_hat_i];
          sigma2_hat_sum' = sigma2_hat_sum
            + (dotv eps_hat_i eps_hat_i + s2 * (real n_i - s2 * trace V_hat_inv_i));
          D_hat_sum' = add0 D_hat_sum
            (mat_add (outer b_hat_i b_hat_i)
               (mat_sub D (mat_mul (mat_mul (mat_mul (mat_mul_T D Z_i) V_hat_inv_i) Z_i) D)))
      in m_step ext Z y clusters f_hat s2 D a rest (h', sigma2_hat_sum', D_hat_sum'))"

text \<open>The generalised log-likelihood loop; \<open>None\<close> stands for a KeyError.\<close>
fun gll_loop ::
  "('rf, 'g) extern \<Rightarrow> matrix \<Rightarrow> vec \<Rightarrow> 'c list \<Rightarrow> vec \<Rightarrow> real \<Rightarrow> matrix \<Rightarrow> 'c table
     \<Rightarrow> 'c list \<Rightarrow> real \<Rightarrow> real option" where
  "gll_loop ext Z y clusters f_hat s2 D df [] gll = Some gll"
| "gll_loop ext Z y clusters f_hat s2 D df (cluster_id # rest) gll =
     (let indices_i = indices_by_cluster clusters cluster_id;
          y_i = y_by_cluster y clusters cluster_id;
          Z_i = Z_by_cluster Z clusters cluster_id;
          I_i = I_by_cluster clusters cluster_id;
          f_hat_i = select f_hat indices_i;
          R_hat_i = scal s2 I_i
      in case loc df cluster_id of
           None \<Rightarrow> None
         | Some b_hat_i \<Rightarrow>
             let logdet_D_hat = snd (slogdet ext D);
                 logdet_R_hat_i = snd (slogdet ext R_hat_i);
                 r = vsub (vsub y_i f_hat_i) (mat_vec Z_i b_hat_i)
             in gll_loop ext Z y clusters f_hat s2 D df rest
                  (gll + (dotv (vec_mat r (pinv ext R_hat_i)) r
                          + dotv (vec_mat b_hat_i (pinv ext D)) b_hat_i
                          + logdet_D_hat
                          + logdet_R_hat_i)))"

text \<open>
  \<open>np.abs((gll - prev) / prev) < thr\<close>. When \<open>prev\<close> is zero the floating-point
  division gives an infinity or a NaN, and neither is below any threshold.
\<close>
definition rel_change_below :: "real \<Rightarrow> real \<Rightarrow> real \<Rightarrow> bool" where
  "rel_change_below gll prev thr = (prev \<noteq> 0 \<and> \<bar>(gll - prev) / prev\<bar> < thr)"

text \<open>
  The body of the EM loop after \<open>iteration += 1\<close>. An exception ends the call: the
  result is then the error and the world as the exception leaves it. The mask of a
  cluster has one entry per label, so indexing \<open>f_hat\<close> with it raises IndexError when
  \<open>f_hat\<close> has another length. \<open>1.0 / n_obs\<close> and \<open>1.0 / n_clusters\<close> divide by
  Python integers and raise ZeroDivisionError at zero. Where \<open>n_clusters\<close> is not zero
  there is a cluster and \<open>D_hat_sum\<close> is an array, so the branch for \<open>None\<close> in the
  update of \<open>D_hat\<close> is never taken. The regressor is taken to return from every fit.
\<close>
definition em_iteration ::
  "('rf, 'g) extern \<Rightarrow> matrix \<Rightarrow> matrix \<Rightarrow> 'c list \<Rightarrow> vec \<Rightarrow> addr
     \<Rightarrow> ('c, 'rf, 'g) world \<Rightarrow> 'rf locals
     \<Rightarrow> py_error \<times> ('c, 'rf, 'g) world + ('c, 'rf, 'g) world \<times> 'rf locals" where
  "em_iteration ext X Z clusters y b_hat_df w l =
     (let n_clusters = nunique clusters;
          n_obs = length y;
          index = map fst (value_counts clusters)
      in
      case e_step Z y clusters (heap w ! b_hat_df) index (replicate (length y) 0) of
        None \<Rightarrow> Inl (KeyError, w)
      | Some y_star \<Rightarrow>
          let (r, g') = rf_fit ext (n_estimators (self w)) (rng w) X y_star;
              w1 = w\<lparr>rng := g', rf_calls := Suc (rf_calls w)\<rparr>;
              f_hat = oob_prediction ext r
          in
          if index \<noteq> [] \<and> length f_hat \<noteq> n_obs then Inl (IndexError, w1)
          else
            let (h2, sigma2_hat_sum, D_hat_sum) =
                  m_step ext Z y clusters f_hat (sigma2_hat l) (D_hat l) b_hat_df index
                    (heap w1, 0, None);
                w2 = w1\<lparr>heap := h2\<rparr>
            in
            if n_obs = 0 then Inl (ZeroDivisionError, w2)
            else if n_clusters = 0 then Inl (ZeroDivisionError, w2)
            else
              let sigma2_hat' = (1 / real n_obs) * sigma2_hat_sum;
                  D_hat' = (case D_hat_sum of
                              Some S \<Rightarrow> scal (1 / real n_clusters) S
                            | None \<Rightarrow> []);
                  copy = length h2;
                  w3 = w2\<lparr>heap := h2 @ [h2 ! b_hat_df],
                          self := (self w2)
                            \<lparr>b_hat_history := b_hat_history (self w2) @ [copy],
                             sigma2_hat_history := sigma2_hat_history (self w2) @ [sigma2_hat'],
                             D_hat_history := D_hat_history (self w2) @ [D_hat']\<rparr>\<rparr>
              in
              case gll_loop ext Z y clusters f_hat sigma2_hat' D_hat' (heap w3 ! b_hat_df)
                     index 0 of
                None \<Rightarrow> Inl (KeyError, w3)
              | Some gll \<Rightarrow>
                  let w4 = w3\<lparr>self := (self w3)
                             \<lparr>gll_history := gll_history (self w3) @ [gll]\<rparr>\<rparr>;
                      l4 = l\<lparr>sigma2_hat := sigma2_hat', D_hat := D_hat', rf := Some r\<rparr>
                  in
                  case gll_early_stop_threshold (self w4) of
                    None \<Rightarrow> Inr (w4, l4)
                  | Some thr \<Rightarrow>
                      if \<not> iter_begun l4 then Inr (w4, l4\<lparr>iter_begun := True\<rparr>)
                      else
                        let gh = gll_history (self w4) in
                        if length gh < 2 then Inl (IndexError, w4)
                        else if rel_change_below gll (gh ! (length gh - 2)) thr
                        then Inr (w4, l4\<lparr>stop_flag := True\<rparr>)
                        else Inr (w4, l4))"

text \<open>
  The EM loop \<^verbatim>\<open>while iteration < self.max_iterations and not stop_flag\<close>. It
  returns the value of \<open>iteration\<close> at the exit with the world and the locals.
\<close>
function em_loop ::
  "('rf, 'g) extern \<Rightarrow> matrix \<Rightarrow> matrix \<Rightarrow> 'c list \<Rightarrow> vec \<Rightarrow> addr \<Rightarrow> int
     \<Rightarrow> ('c, 'rf, 'g) world \<Rightarrow> 'rf locals
     \<Rightarrow> py_error \<times> ('c, 'rf, 'g) world + int \<times> ('c, 'rf, 'g) world \<times> 'rf locals" where
  "em_loop ext X Z clusters y b_hat_df iteration w l =
     (if iteration < max_iterations (self w) \<and> \<not> stop_flag l then
        (case em_iteration ext X Z clusters y b_hat_df w l of
           Inl e \<Rightarrow> Inl e
         | Inr (w', l') \<Rightarrow> em_loop ext X Z clusters y b_hat_df (iteration + 1) w' l')
      else Inr (iteration, w, l))"
  by pat_completeness auto
termination
  apply (relation "measure (\<lambda>(ext, X, Z, clusters, y, b, iteration, w, l).
                     nat (max_iterations (self w) - iteration))")
   apply simp
  apply (auto simp: em_iteration_def Let_def
              split: option.splits prod.splits if_splits)
  done

declare em_loop.simps [simp del]

text \<open>
  The part of \<^verbatim>\<open>fit\<close> up to the exit of the loop: the input checks, the
  initialisation (the table of zeros is a new object, and the reference to it goes
  into the history), and the loop.
\<close>
definition fit_loop ::
  "('rf, 'g) extern \<Rightarrow> matrix \<Rightarrow> matrix \<Rightarrow> 'c list \<Rightarrow> vec \<Rightarrow> ('c, 'rf, 'g) world
     \<Rightarrow> py_error \<times> ('c, 'rf, 'g) world + int \<times> ('c, 'rf, 'g) world \<times> 'rf locals" where
  "fit_loop ext X Z clusters y w =
     (if length Z \<noteq> length X then Inl (AssertionError, w)
      else if length y \<noteq> length X then Inl (AssertionError, w)
      else if length clusters \<noteq> length X then Inl (AssertionError, w)
      else
        let n_clusters = nunique clusters;
            q = ncols Z;
            cluster_counts = value_counts clusters;
            iteration = 0;
            b_hat_df = length (heap w);
            sigma2_hat0 = 1;
            D_hat0 = eye q;
            w0 = w\<lparr>heap := heap w
                        @ [zip (map fst cluster_counts) (replicate n_clusters (replicate q 0))],
                    self := (self w)
                      \<lparr>b_hat_history := b_hat_history (self w) @ [b_hat_df],
                       sigma2_hat_history := sigma2_hat_history (self w) @ [sigma2_hat0],
                       D_hat_history := D_hat_history (self w) @ [D_hat0]\<rparr>\<rparr>;
            l0 = \<lparr>stop_flag = False, iter_begun = False, sigma2_hat = sigma2_hat0,
                  D_hat = D_hat0, rf = None\<rparr>
        in em_loop ext X Z clusters y b_hat_df iteration w0 l0)"

text \<open>
  \<^verbatim>\<open>fit\<close>: after the loop the instance takes the cluster counts, the regressor of
  the last iteration and the reference to the coefficient table. Reading \<open>rf\<close> when no
  iteration has bound it raises UnboundLocalError, after \<open>self.cluster_counts\<close> has
  been assigned.
\<close>
definition fit ::
  "('rf, 'g) extern \<Rightarrow> matrix \<Rightarrow> matrix \<Rightarrow> 'c list \<Rightarrow> vec \<Rightarrow> ('c, 'rf, 'g) world
     \<Rightarrow> (py_error + unit) \<times> ('c, 'rf, 'g) world" where
  "fit ext X Z clusters y w =
     (case fit_loop ext X Z clusters y w of
        Inl (e, w') \<Rightarrow> (Inl e, w')
      | Inr (iteration, w', l') \<Rightarrow>
          let w1 = w'\<lparr>self := (self w')\<lparr>cluster_counts := Some (value_counts clusters)\<rparr>\<rparr> in
          (case rf l' of
             None \<Rightarrow> (Inl UnboundLocalError, w1)
           | Some r \<Rightarrow>
               (Inr (), w1\<lparr>self := (self w1)
                           \<lparr>trained_rf := Some r, trained_b := Some (length (heap w))\<rparr>\<rparr>)))"

text \<open>The number of EM iterations a call of \<^verbatim>\<open>fit\<close> executes, when the loop is left
  without an exception.\<close>
definition iterations_run ::
  "('rf, 'g) extern \<Rightarrow> matrix \<Rightarrow> matrix \<Rightarrow> 'c list \<Rightarrow> vec \<Rightarrow> ('c, 'rf, 'g) world
     \<Rightarrow> int option" where
  "iterations_run ext X Z clusters y w =
     (case fit_loop ext X Z clusters y w of
        Inl _ \<Rightarrow> None
      | Inr (iteration, _, _) \<Rightarrow> Some iteration)"

subsection \<open>Stand-ins for the external collaborators\<close>

text \<open>
  For running the model on concrete data: the pseudo-inverse and the log-determinant of
  diagonal and of one-by-one matrices, and a regressor whose fitted model remembers its
  training target and the generator state it was fitted with, and predicts zero for
  every row.
\<close>
definition pinv_diag :: "matrix \<Rightarrow> matrix" where
  "pinv_diag M = map (map (\<lambda>x. if x = 0 then 0 else 1 / x)) M"

definition slogdet_1 :: "matrix \<Rightarrow> real \<times> real" where
  "slogdet_1 M = (case M of [[x]] \<Rightarrow> (sgn x, ln \<bar>x\<bar>) | _ \<Rightarrow> (1, 0))"

definition zero_rf :: "(vec \<times> nat, nat) extern" where
  "zero_rf =
     \<lparr>pinv = pinv_diag, slogdet = slogdet_1,
      rf_fit = (\<lambda>n g X t. ((t, g), Suc g)),
      oob_prediction = (\<lambda>r. map (\<lambda>_. 0) (fst r)),
      rf_predict = (\<lambda>r X. map (\<lambda>_. 0) X)\<rparr>"

text \<open>A world with a newly constructed instance (default ensemble size and
  \<open>min_iterations\<close>), an empty store and no regressor fit made.\<close>
definition w_fresh :: "real option \<Rightarrow> int \<Rightarrow> (nat, vec \<times> nat, nat) world" where
  "w_fresh thr mx = \<lparr>self = MERF_init 300 10 thr mx, heap = [], rng = 0, rf_calls = 0\<rparr>"

lemmas eval_defs =
  fit_def fit_loop_def iterations_run_def w_fresh_def MERF_init_def zero_rf_def
  nunique_def value_counts_def ncols_def eye_def em_iteration_def Let_def
  indices_by_cluster_def y_by_cluster_def Z_by_cluster_def n_by_cluster_def
  I_by_cluster_def eq_mask_def select_def loc_def set_loc_def dotv_def vsub_def vadd_def
  mat_vec_def vec_mat_def mat_mul_def mat_mul_T_def mat_add_def mat_sub_def scal_def
  outer_def trace_def column_def add0_def pinv_diag_def slogdet_1_def predict_def
  rel_change_below_def em_loop.simps

subsection \<open>Auxiliary notions for the statements\<close>

text \<open>The same world with another value of the attribute \<open>min_iterations\<close>.\<close>
definition set_min_iterations :: "int \<Rightarrow> ('c, 'rf, 'g) world \<Rightarrow> ('c, 'rf, 'g) world" where
  "set_min_iterations k w = w\<lparr>self := (self w)\<lparr>min_iterations := k\<rparr>\<rparr>"

text \<open>The world after one call of \<^verbatim>\<open>fit\<close> on a fresh instance: one cluster with one
  observation, one random-effect column, one iteration allowed and no early stopping.\<close>
definition w_once :: "(nat, vec \<times> nat, nat) world" where
  "w_once = snd (fit zero_rf [[0]] [[1]] [7] [2] (w_fresh None 1))"

subsection \<open>The M-step and the GLL in the words of the specification\<close>

text \<open>The slice of a row-aligned array for the rows of cluster \<open>i\<close>.\<close>
definition rows_of :: "'a list \<Rightarrow> 'c list \<Rightarrow> 'c \<Rightarrow> 'a list" where
  "rows_of a clusters i = map fst (filter (\<lambda>p. snd p = i) (zip a clusters))"

text \<open>\<open>V_hat_i = Z_i D_hat Z_i^T + sigma2_hat I_i\<close>, with \<open>n_i\<close> the number of rows of
  the cluster.\<close>
definition spec_V_hat :: "matrix \<Rightarrow> 'c list \<Rightarrow> real \<Rightarrow> matrix \<Rightarrow> 'c \<Rightarrow> matrix" where
  "spec_V_hat Z clusters s2 D i =
     (let Z_i = rows_of Z clusters i; n_i = count_list clusters i
      in mat_add (mat_mul_T (mat_mul Z_i D) Z_i) (scal s2 (eye n_i)))"

text \<open>\<open>b_hat_i = D_hat Z_i^T V_hat_inv_i (y_i - f_hat_i)\<close>.\<close>
definition spec_b_hat ::
  "('rf, 'g) extern \<Rightarrow> matrix \<Rightarrow> vec \<Rightarrow> 'c list \<Rightarrow> vec \<Rightarrow> real \<Rightarrow> matrix \<Rightarrow> 'c \<Rightarrow> vec" where
  "spec_b_hat ext Z y clusters f_hat s2 D i =
     (let Z_i = rows_of Z clusters i; y_i = rows_of y clusters i;
          f_hat_i = rows_of f_hat clusters i;
          V_hat_inv_i = pinv ext (spec_V_hat Z clusters s2 D i)
      in mat_vec (mat_mul (mat_mul_T D Z_i) V_hat_inv_i) (vsub y_i f_hat_i))"

text \<open>\<open>eps_hat_i = y_i - f_hat_i - Z_i b_hat_i\<close>.\<close>
definition spec_eps_hat ::
  "('rf, 'g) extern \<Rightarrow> matrix \<Rightarrow> vec \<Rightarrow> 'c list \<Rightarrow> vec \<Rightarrow> real \<Rightarrow> matrix \<Rightarrow> 'c \<Rightarrow> vec" where
  "spec_eps_hat ext Z y clusters f_hat s2 D i =
     vsub (vsub (rows_of y clusters i) (rows_of f_hat clusters i))
       (mat_vec (rows_of Z clusters i) (spec_b_hat ext Z y clusters f_hat s2 D i))"

text \<open>The summand of \<open>sigma2_sum\<close>:
  \<open>eps_hat_i^T eps_hat_i + sigma2_hat (n_i - sigma2_hat trace(V_hat_inv_i))\<close>.\<close>
definition spec_sigma2_term ::
  "('rf, 'g) extern \<Rightarrow> matrix \<Rightarrow> vec \<Rightarrow> 'c list \<Rightarrow> vec \<Rightarrow> real \<Rightarrow> matrix \<Rightarrow> 'c \<Rightarrow> real" where
  "spec_sigma2_term ext Z y clusters f_hat s2 D i =
     (let eps_hat_i = spec_eps_hat ext Z y clusters f_hat s2 D i;
          V_hat_inv_i = pinv ext (spec_V_hat Z clusters s2 D i)
      in dotv eps_hat_i eps_hat_i
           + s2 * (real (count_list clusters i) - s2 * trace V_hat_inv_i))"

text \<open>The summand of \<open>D_sum\<close>:
  \<open>outer(b_hat_i, b_hat_i) + (D_hat - D_hat Z_i^T V_hat_inv_i Z_i D_hat)\<close>.\<close>
definition spec_D_term ::
  "('rf, 'g) extern \<Rightarrow> matrix \<Rightarrow> vec \<Rightarrow> 'c list \<Rightarrow> vec \<Rightarrow> real \<Rightarrow> matrix \<Rightarrow> 'c \<Rightarrow> matrix" where
  "spec_D_term ext Z y clusters f_hat s2 D i =
     (let Z_i = rows_of Z clusters i;
          b_hat_i = spec_b_hat ext Z y clusters f_hat s2 D i;
          V_hat_inv_i = pinv ext (spec_V_hat Z clusters s2 D i)
      in mat_add (outer b_hat_i b_hat_i)
           (mat_sub D (mat_mul (mat_mul (mat_mul (mat_mul_T D Z_i) V_hat_inv_i) Z_i) D)))"

text \<open>The sum of a non-empty list of matrices, from the left.\<close>
definition mat_sum :: "matrix list \<Rightarrow> matrix" where
  "mat_sum Ms = (case Ms of [] \<Rightarrow> [] | M # rest \<Rightarrow> foldl mat_add M rest)"

text \<open>The summand of the GLL for cluster \<open>i\<close> with coefficients \<open>b\<close>, where
  \<open>R_i = sigma2_hat I_i\<close> and the log-determinants are the second components of the
  sign and log-magnitude decomposition.\<close>
definition spec_gll_term ::
  "('rf, 'g) extern \<Rightarrow> matrix \<Rightarrow> vec \<Rightarrow> 'c list \<Rightarrow> vec \<Rightarrow> real \<Rightarrow> matrix \<Rightarrow> vec \<Rightarrow> 'c \<Rightarrow> real" where
  "spec_gll_term ext Z y clusters f_hat s2 D b i =
     (let r = vsub (vsub (rows_of y clusters i) (rows_of f_hat clusters i))
                (mat_vec (rows_of Z clusters i) b);
          R_i = scal s2 (eye (count_list clusters i))
      in dotv (vec_mat r (pinv ext R_i)) r
           + dotv (vec_mat b (pinv ext D)) b
           + snd (slogdet ext D)
           + snd (slogdet ext R_i))"

text \<open>The target of the regressor in an iteration that starts in world \<open>w\<close>, and the
  out-of-bag prediction \<open>f_hat\<close> of the regressor fitted on it.\<close>
definition y_star_of :: "matrix \<Rightarrow> 'c list \<Rightarrow> vec \<Rightarrow> addr \<Rightarrow> ('c, 'rf, 'g) world \<Rightarrow> vec option" where
  "y_star_of Z clusters y a w =
     e_step Z y clusters (heap w ! a) (map fst (value_counts clusters))
       (replicate (length y) 0)"

definition f_hat_of ::
  "('rf, 'g) extern \<Rightarrow> matrix \<Rightarrow> matrix \<Rightarrow> 'c list \<Rightarrow> vec \<Rightarrow> addr \<Rightarrow> ('c, 'rf, 'g) world
     \<Rightarrow> vec option" where
  "f_hat_of ext X Z clusters y a w =
     map_option
       (\<lambda>y_star. oob_prediction ext (fst (rf_fit ext (n_estimators (self w)) (rng w) X y_star)))
       (y_star_of Z clusters y a w)"

text \<open>The world and the locals at the head of the loop in the call that leads to
  \<open>w_once\<close>.\<close>
definition w_start :: "(nat, vec \<times> nat, nat) world" where
  "w_start =
     \<lparr>self = (MERF_init 300 10 None 1)
        \<lparr>b_hat_history := [0], sigma2_hat_history := [1], D_hat_history := [[[1]]]\<rparr>,
      heap = [[(7, [0])]], rng = 0, rf_calls = 0\<rparr>"

definition l_start :: "(vec \<times> nat) locals" where
  "l_start = \<lparr>stop_flag = False, iter_begun = False, sigma2_hat = 1, D_hat = [[1]], rf = None\<rparr>"

text \<open>The world and the locals after the one iteration of that call.\<close>
definition w_after1 :: "(nat, vec \<times> nat, nat) world" where
  "w_after1 =
     w_once\<lparr>self := (self w_once)\<lparr>cluster_counts := None, trained_rf := None,
                                    trained_b := None\<rparr>\<rparr>"

definition l_after1 :: "(vec \<times> nat) locals" where
  "l_after1 = \<lparr>stop_flag = False, iter_begun = False, sigma2_hat = 3 / 2,
               D_hat = [[3 / 2]], rf = Some ([2], 0)\<rparr>"

text \<open>The world and the locals with which \<^verbatim>\<open>fit\<close> enters its loop.\<close>
definition world_at_loop :: "matrix \<Rightarrow> 'c list \<Rightarrow> ('c, 'rf, 'g) world \<Rightarrow> ('c, 'rf, 'g) world" where
  "world_at_loop Z clusters w =
     w\<lparr>heap := heap w
          @ [zip (map fst (value_counts clusters))
               (replicate (nunique clusters) (replicate (ncols Z) 0))],
       self := (self w)
         \<lparr>b_hat_history := b_hat_history (self w) @ [length (heap w)],
          sigma2_hat_history := sigma2_hat_history (self w) @ [1],
          D_hat_history := D_hat_history (self w) @ [eye (ncols Z)]\<rparr>\<rparr>"

definition locals_at_loop :: "matrix \<Rightarrow> 'rf locals" where
  "locals_at_loop Z =
     \<lparr>stop_flag = False, iter_begun = False, sigma2_hat = 1, D_hat = eye (ncols Z),
      rf = None\<rparr>"

text \<open>\<open>self.trained_b.loc[c]\<close>: the coefficients the instance holds for cluster \<open>c\<close>.\<close>
definition trained_b_loc :: "('c, 'rf, 'g) world \<Rightarrow> 'c \<Rightarrow> vec option" where
  "trained_b_loc w c =
     (case trained_b (self w) of None \<Rightarrow> None | Some a \<Rightarrow> loc (heap w ! a) c)"

section \<open>Input checks\<close>

text \<open>
  C6. When Z, y or clusters disagrees with X in row count (so whenever any two of the
  four inputs disagree), \<^verbatim>\<open>fit\<close> fails with the assertion error of its input
  checks (the spec's ShapeMismatch) and the world is exactly as before the call: no
  regressor fit has been made, no history entry appended, no attribute assigned.
\<close>
theorem fit_shape_mismatch:
  assumes "length Z \<noteq> length X \<or> length y \<noteq> length X \<or> length clusters \<noteq> length X"
  shows "fit ext X Z clusters y w = (Inl AssertionError, w)"
  using assms by (auto simp: fit_def fit_loop_def)

theorem fit_shape_mismatch_witness:
  "length [2::real] \<noteq> length [[0], [1::real]]
   \<and> fit zero_rf [[0], [1]] [[1], [1]] [7, 7] [2] (w_fresh None 5)
       = (Inl AssertionError, w_fresh None 5)
   \<and> rf_calls (snd (fit zero_rf [[0], [1]] [[1], [1]] [7, 7] [2] (w_fresh None 5))) = 0"
  using fit_shape_mismatch [of "[[1], [1]]" "[[0], [1]]" "[2]" "[7, 7::nat]" zero_rf "w_fresh None 5"]
  by (simp add: w_fresh_def)

section \<open>The loop needs one iteration to bind the regressor\<close>

lemma em_loop_no_iteration:
  "max_iterations (self w) \<le> iteration
     \<Longrightarrow> em_loop ext X Z clusters y a iteration w l = Inr (iteration, w, l)"
  by (simp add: em_loop.simps)

text \<open>
  C10. For well-shaped inputs and \<open>max_iterations \<le> 0\<close> the loop body never runs
  (no iteration, no regressor fit), \<^verbatim>\<open>fit\<close> raises UnboundLocalError, an error
  outside the spec's taxonomy, and \<open>trained_rf\<close> keeps its old value. Hence a call of
  \<^verbatim>\<open>fit\<close> that returns was made with \<open>max_iterations \<ge> 1\<close>.
\<close>
theorem fit_max_iterations_nonpositive:
  "(length Z = length X \<and> length y = length X \<and> length clusters = length X
      \<and> max_iterations (self w) \<le> 0
    \<longrightarrow> iterations_run ext X Z clusters y w = Some 0
        \<and> fst (fit ext X Z clusters y w) = Inl UnboundLocalError
        \<and> rf_calls (snd (fit ext X Z clusters y w)) = rf_calls w
        \<and> trained_rf (self (snd (fit ext X Z clusters y w))) = trained_rf (self w))
   \<and> (fst (fit ext X Z clusters y w) = Inr () \<longrightarrow> 1 \<le> max_iterations (self w))"
proof -
  have nonpos: "iterations_run ext X Z clusters y w = Some 0
        \<and> fst (fit ext X Z clusters y w) = Inl UnboundLocalError
        \<and> rf_calls (snd (fit ext X Z clusters y w)) = rf_calls w
        \<and> trained_rf (self (snd (fit ext X Z clusters y w))) = trained_rf (self w)"
    if shp: "length Z = length X" "length y = length X" "length clusters = length X"
      and mx: "max_iterations (self w) \<le> 0"
  proof -
    have "fit_loop ext X Z clusters y w =
            Inr (0,
                 w\<lparr>heap := heap w @ [zip (map fst (value_counts clusters))
                                        (replicate (nunique clusters) (replicate (ncols Z) 0))],
                   self := (self w)
                     \<lparr>b_hat_history := b_hat_history (self w) @ [length (heap w)],
                      sigma2_hat_history := sigma2_hat_history (self w) @ [1],
                      D_hat_history := D_hat_history (self w) @ [eye (ncols Z)]\<rparr>\<rparr>,
                 \<lparr>stop_flag = False, iter_begun = False, sigma2_hat = 1,
                  D_hat = eye (ncols Z), rf = None\<rparr>)"
      using shp mx by (simp add: fit_loop_def Let_def em_loop.simps)
    then show ?thesis
      by (simp add: fit_def iterations_run_def)
  qed
  have returns: "1 \<le> max_iterations (self w)" if ok: "fst (fit ext X Z clusters y w) = Inr ()"
  proof (rule ccontr)
    assume "\<not> 1 \<le> max_iterations (self w)"
    then have mx: "max_iterations (self w) \<le> 0" by simp
    show False
    proof (cases "length Z = length X \<and> length y = length X \<and> length clusters = length X")
      case True
      with nonpos mx ok show False by simp
    next
      case False
      then have "fit ext X Z clusters y w = (Inl AssertionError, w)"
        by (auto simp: fit_def fit_loop_def)
      with ok show False by simp
    qed
  qed
  from nonpos returns show ?thesis by blast
qed

theorem fit_max_iterations_nonpositive_witness:
  "length [[1::real]] = length [[0::real]] \<and> length [2::real] = length [[0::real]]
   \<and> length [7::nat] = length [[0::real]]
   \<and> max_iterations (self (w_fresh None 0)) \<le> 0
   \<and> iterations_run zero_rf [[0]] [[1]] [7] [2] (w_fresh None 0) = Some 0
   \<and> fst (fit zero_rf [[0]] [[1]] [7] [2] (w_fresh None 0)) = Inl UnboundLocalError
   \<and> fst (fit zero_rf [[0]] [[1]] [7] [2] (w_fresh None 1)) = Inr ()
   \<and> 1 \<le> max_iterations (self (w_fresh None 1))"
proof -
  have a: "fst (fit zero_rf [[0]] [[1]] [7] [2] (w_fresh None 1)) = Inr ()"
    by (simp add: eval_defs)
  have b: "max_iterations (self (w_fresh None 0)) \<le> 0"
    by (simp add: w_fresh_def MERF_init_def)
  show ?thesis
    using fit_max_iterations_nonpositive
            [of "[[1]]" "[[0]]" "[2]" "[7::nat]" "w_fresh None 0" zero_rf]
          fit_max_iterations_nonpositive
            [of "[[1]]" "[[0]]" "[2]" "[7::nat]" "w_fresh None 1" zero_rf]
          a b
    by simp
qed

section \<open>predict reads the model and changes nothing\<close>


section \<open>The attribute min_iterations is never read\<close>

lemma em_iteration_min_iterations:
  "em_iteration ext X Z clusters y a (set_min_iterations k w) l =
     (case em_iteration ext X Z clusters y a w l of
        Inl (e, w') \<Rightarrow> Inl (e, set_min_iterations k w')
      | Inr (w', l') \<Rightarrow> Inr (set_min_iterations k w', l'))"
  by (simp add: em_iteration_def set_min_iterations_def Let_def
           split: option.splits prod.splits)

lemma em_loop_min_iterations:
  "em_loop ext X Z clusters y a iteration (set_min_iterations k w) l =
     (case em_loop ext X Z clusters y a iteration w l of
        Inl (e, w') \<Rightarrow> Inl (e, set_min_iterations k w')
      | Inr (i, w', l') \<Rightarrow> Inr (i, set_min_iterations k w', l'))"
proof (induction ext X Z clusters y a iteration w l rule: em_loop.induct)
  case (1 ext X Z clusters y a iteration w l)
  have mx: "max_iterations (self (set_min_iterations k w)) = max_iterations (self w)"
    by (simp add: set_min_iterations_def)
  note unf = em_loop.simps [of ext X Z clusters y a iteration w l]
             em_loop.simps [of ext X Z clusters y a iteration "set_min_iterations k w" l]
  show ?case
  proof (cases "iteration < max_iterations (self w) \<and> \<not> stop_flag l")
    case False
    then show ?thesis
      using mx by (auto simp: unf)
  next
    case True
    show ?thesis
    proof (cases "em_iteration ext X Z clusters y a w l")
      case (Inl ew)
      then show ?thesis
        using True mx
        by (auto simp: unf em_iteration_min_iterations split: prod.splits)
    next
      case (Inr wl)
      obtain w' l' where wl: "wl = (w', l')" by (cases wl)
      have "em_iteration ext X Z clusters y a w l = Inr (w', l')"
        using Inr wl by simp
      from "1.IH" [OF True this refl] True mx this
      show ?thesis
        by (simp add: unf em_iteration_min_iterations)
    qed
  qed
qed


lemma fit_loop_min_iterations:
  "fit_loop ext X Z clusters y (set_min_iterations k w) =
     (case fit_loop ext X Z clusters y w of
        Inl (e, w') \<Rightarrow> Inl (e, set_min_iterations k w')
      | Inr (i, w', l') \<Rightarrow> Inr (i, set_min_iterations k w', l'))"
proof -
  have upd: "(set_min_iterations k w)
          \<lparr>heap := h, self := (self (set_min_iterations k w))
               \<lparr>b_hat_history := bh, sigma2_hat_history := sh, D_hat_history := dh\<rparr>\<rparr>
        = set_min_iterations k
            (w\<lparr>heap := h, self := (self w)
               \<lparr>b_hat_history := bh, sigma2_hat_history := sh, D_hat_history := dh\<rparr>\<rparr>)"
    for h bh sh dh
    by (simp add: set_min_iterations_def)
  have sel: "heap (set_min_iterations k w) = heap w"
    "b_hat_history (self (set_min_iterations k w)) = b_hat_history (self w)"
    "sigma2_hat_history (self (set_min_iterations k w)) = sigma2_hat_history (self w)"
    "D_hat_history (self (set_min_iterations k w)) = D_hat_history (self w)"
    by (simp_all add: set_min_iterations_def)
  show ?thesis
    unfolding fit_loop_def Let_def sel upd
    by (simp add: em_loop_min_iterations)
qed

text \<open>
  C8. \<^verbatim>\<open>fit\<close> never reads \<open>min_iterations\<close>: started from a world that differs
  only in that attribute, it gives the same result, runs the same number of iterations
  and leaves the same world (the same histories, store, regressor and generator state)
  up to that attribute. For instance a fresh instance with \<open>min_iterations = 10\<close>,
  twenty iterations allowed and threshold 1000000 stops after iteration 2.
\<close>
theorem fit_ignores_min_iterations:
  "fit ext X Z clusters y (set_min_iterations k w)
     = (fst (fit ext X Z clusters y w), set_min_iterations k (snd (fit ext X Z clusters y w)))
   \<and> iterations_run ext X Z clusters y (set_min_iterations k w)
       = iterations_run ext X Z clusters y w
   \<and> min_iterations (self (w_fresh (Some 1000000) 20)) = 10
   \<and> iterations_run zero_rf [[0]] [[0]] [7] [1] (w_fresh (Some 1000000) 20) = Some 2"
proof -
  have a: "fit ext X Z clusters y (set_min_iterations k w)
     = (fst (fit ext X Z clusters y w), set_min_iterations k (snd (fit ext X Z clusters y w)))"
    unfolding fit_def fit_loop_min_iterations
    by (cases "fit_loop ext X Z clusters y w")
       (auto simp: set_min_iterations_def Let_def split: option.splits prod.splits)
  have b: "iterations_run ext X Z clusters y (set_min_iterations k w)
       = iterations_run ext X Z clusters y w"
    unfolding iterations_run_def fit_loop_min_iterations
    by (cases "fit_loop ext X Z clusters y w") (auto split: prod.splits)
  have c: "min_iterations (self (w_fresh (Some 1000000) 20)) = 10"
    by (simp add: w_fresh_def MERF_init_def)
  have d: "iterations_run zero_rf [[0]] [[0]] [7] [1] (w_fresh (Some 1000000) 20) = Some 2"
    by (simp add: eval_defs)
  from a b c d show ?thesis by simp
qed


section \<open>Lengths of the histories\<close>

lemma em_iteration_history_lengths:
  assumes "em_iteration ext X Z clusters y a w l = Inr (w', l')"
  shows "length (b_hat_history (self w')) = Suc (length (b_hat_history (self w)))
       \<and> length (sigma2_hat_history (self w')) = Suc (length (sigma2_hat_history (self w)))
       \<and> length (D_hat_history (self w')) = Suc (length (D_hat_history (self w)))
       \<and> length (gll_history (self w')) = Suc (length (gll_history (self w)))"
  using assms
  by (auto simp: em_iteration_def Let_def split: option.splits prod.splits if_splits)

lemma em_loop_history_lengths:
  "em_loop ext X Z clusters y a iteration w l = Inr (i', w', l')
   \<Longrightarrow> iteration \<le> i'
     \<and> length (b_hat_history (self w')) = length (b_hat_history (self w)) + nat (i' - iteration)
     \<and> length (sigma2_hat_history (self w'))
         = length (sigma2_hat_history (self w)) + nat (i' - iteration)
     \<and> length (D_hat_history (self w')) = length (D_hat_history (self w)) + nat (i' - iteration)
     \<and> length (gll_history (self w')) = length (gll_history (self w)) + nat (i' - iteration)"
proof (induction ext X Z clusters y a iteration w l rule: em_loop.induct)
  case (1 ext X Z clusters y a iteration w l)
  note unf = em_loop.simps [of ext X Z clusters y a iteration w l]
  show ?case
  proof (cases "iteration < max_iterations (self w) \<and> \<not> stop_flag l")
    case False
    with "1.prems" show ?thesis by (auto simp: unf)
  next
    case True
    show ?thesis
    proof (cases "em_iteration ext X Z clusters y a w l")
      case (Inl ew)
      with True "1.prems" show ?thesis by (simp add: unf)
    next
      case (Inr wl)
      obtain w1 l1 where wl: "wl = (w1, l1)" by (cases wl)
      have step: "em_iteration ext X Z clusters y a w l = Inr (w1, l1)"
        using Inr wl by simp
      have rest: "em_loop ext X Z clusters y a (iteration + 1) w1 l1 = Inr (i', w', l')"
        using "1.prems" True step by (simp add: unf)
      from "1.IH" [OF True step refl rest] em_iteration_history_lengths [OF step]
      show ?thesis by auto
    qed
  qed
qed

lemma w_once_eval:
  "fit zero_rf [[0]] [[1]] [7] [2] (w_fresh None 1) = (Inr (), w_once)"
  "w_once =
     \<lparr>self = \<lparr>n_estimators = 300, min_iterations = 10, gll_early_stop_threshold = None,
               max_iterations = 1, cluster_counts = Some [(7, 1)], trained_rf = Some ([2], 0),
               trained_b = Some 0, b_hat_history = [0, 1], sigma2_hat_history = [1, 3 / 2],
               D_hat_history = [[[1]], [[3 / 2]]],
               gll_history = [2 * ln (3 / 2) + 4 / 3]\<rparr>,
      heap = [[(7, [1])], [(7, [1])]], rng = 1, rf_calls = 1\<rparr>"
  by (simp_all add: w_once_def eval_defs)

text \<open>
  C4, as amended. When \<^verbatim>\<open>fit\<close> returns after \<open>n\<close> iterations, the histories of
  \<open>b_hat\<close>, \<open>sigma2_hat\<close> and \<open>D_hat\<close> are \<open>n + 1\<close> entries longer than before the
  call and the history of the GLL is \<open>n\<close> entries longer. The lengths are \<open>n + 1\<close>
  and \<open>n\<close> themselves when the histories were empty before the call, as on a fresh
  instance.
\<close>
theorem fit_history_lengths:
  assumes "fit ext X Z clusters y w = (Inr (), w')"
  shows "\<exists>n. iterations_run ext X Z clusters y w = Some (int n)
     \<and> length (b_hat_history (self w')) = length (b_hat_history (self w)) + n + 1
     \<and> length (sigma2_hat_history (self w')) = length (sigma2_hat_history (self w)) + n + 1
     \<and> length (D_hat_history (self w')) = length (D_hat_history (self w)) + n + 1
     \<and> length (gll_history (self w')) = length (gll_history (self w)) + n"
proof -
  from assms obtain i w2 l2 where fl: "fit_loop ext X Z clusters y w = Inr (i, w2, l2)"
    and w': "self w' = (self w2)\<lparr>cluster_counts := Some (value_counts clusters),
                 trained_rf := rf l2, trained_b := Some (length (heap w))\<rparr>"
    by (auto simp: fit_def Let_def split: sum.splits prod.splits option.splits)
  from fl obtain w0 l0 where
    loop: "em_loop ext X Z clusters y (length (heap w)) 0 w0 l0 = Inr (i, w2, l2)"
    and w0: "self w0 = (self w)
                      \<lparr>b_hat_history := b_hat_history (self w) @ [length (heap w)],
                       sigma2_hat_history := sigma2_hat_history (self w) @ [1],
                       D_hat_history := D_hat_history (self w) @ [eye (ncols Z)]\<rparr>"
    by (auto simp: fit_loop_def Let_def split: if_splits)
  from em_loop_history_lengths [OF loop] w0 w' fl
  show ?thesis
    by (intro exI [of _ "nat i"]) (simp add: iterations_run_def)
qed


theorem fit_history_lengths_witness:
  "fit zero_rf [[0]] [[1]] [7] [2] (w_fresh None 1) = (Inr (), w_once)
   \<and> iterations_run zero_rf [[0]] [[1]] [7] [2] (w_fresh None 1) = Some 1
   \<and> length (b_hat_history (self w_once)) = 2
   \<and> length (sigma2_hat_history (self w_once)) = 2
   \<and> length (D_hat_history (self w_once)) = 2
   \<and> length (gll_history (self w_once)) = 1"
proof -
  have it: "iterations_run zero_rf [[0]] [[1]] [7] [2] (w_fresh None 1) = Some 1"
    by (simp add: eval_defs)
  have fresh: "b_hat_history (self (w_fresh None 1)) = []"
    "sigma2_hat_history (self (w_fresh None 1)) = []"
    "D_hat_history (self (w_fresh None 1)) = []"
    "gll_history (self (w_fresh None 1)) = []"
    by (simp_all add: w_fresh_def MERF_init_def)
  from fit_history_lengths [OF w_once_eval(1)] it fresh w_once_eval(1)
  show ?thesis by auto
qed

text \<open>
  C4, as stated, fails for a second call on the same instance: \<^verbatim>\<open>fit\<close> appends to
  the histories of the first call. After two calls of one iteration each the lengths
  are 4 and 2, not 2 and 1.
\<close>
theorem fit_history_lengths_counterexample:
  "fst (fit zero_rf [[0]] [[1]] [7] [2] w_once) = Inr ()
   \<and> iterations_run zero_rf [[0]] [[1]] [7] [2] w_once = Some 1
   \<and> length (b_hat_history (self (snd (fit zero_rf [[0]] [[1]] [7] [2] w_once)))) = 4
   \<and> length (sigma2_hat_history (self (snd (fit zero_rf [[0]] [[1]] [7] [2] w_once)))) = 4
   \<and> length (D_hat_history (self (snd (fit zero_rf [[0]] [[1]] [7] [2] w_once)))) = 4
   \<and> length (gll_history (self (snd (fit zero_rf [[0]] [[1]] [7] [2] w_once)))) = 2"
  unfolding w_once_eval(2) by (simp add: eval_defs)

section \<open>The initial snapshot shares the coefficient table\<close>

text \<open>
  C5 on the code. Before the loop \<^verbatim>\<open>fit\<close> appends the table \<open>b_hat_df\<close> itself
  to \<open>b_hat_history\<close>, not a copy as it does at the end of every iteration. The M-step
  then writes into that object: after a call with one iteration, entry 0 of the history
  is the object \<open>trained_b\<close> refers to, and its row for cluster 7 is 1, not the
  initial 0.
\<close>
theorem fit_initial_snapshot_is_overwritten:
  "fit zero_rf [[0]] [[1]] [7] [2] (w_fresh None 1) = (Inr (), w_once)
   \<and> b_hat_history (self w_once) ! 0 = 0
   \<and> trained_b (self w_once) = Some 0
   \<and> heap w_once ! (b_hat_history (self w_once) ! 0) = [(7, [1])]
   \<and> heap w_once ! (b_hat_history (self w_once) ! 0) \<noteq> [(7, [0])]"
  using w_once_eval(1) unfolding w_once_eval(2) by simp

section \<open>The loop of predict\<close>

lemma length_scatter [simp]: "length (scatter xs ms vs) = length xs"
  by (induction xs ms vs rule: scatter.induct) auto

lemma scatter_add_correction:
  "length y_hat = length Z \<Longrightarrow> length Z = length clusters \<Longrightarrow>
   scatter y_hat (eq_mask clusters c)
     (vadd (select y_hat (eq_mask clusters c)) (mat_vec (select Z (eq_mask clusters c)) b))
   = map (\<lambda>(v, r, k). if k = c then v + dotv r b else v) (zip y_hat (zip Z clusters))"
proof (induction y_hat Z clusters rule: list_induct3)
  case Nil
  then show ?case by simp
next
  case (Cons v y_hat r Z k clusters)
  then show ?case
    by (cases "k = c") (simp_all add: eq_mask_def select_def vadd_def mat_vec_def)
qed

lemma predict_loop_rows:
  assumes "length Z = length y_hat" "length clusters = length y_hat"
    and "distinct index"
    and "\<forall>c\<in>set index. \<exists>b. loc df c = Some b \<and> length b = q"
    and "\<forall>r\<in>set Z. length r = q"
  shows "\<exists>y'. predict_loop (Some df) Z clusters index y_hat = Inr y'
           \<and> length y' = length y_hat
           \<and> (\<forall>j<length y_hat.
                 y' ! j = y_hat ! j
                   + (if clusters ! j \<in> set index
                      then (case loc df (clusters ! j) of
                              Some b \<Rightarrow> dotv (Z ! j) b | None \<Rightarrow> 0)
                      else 0))"
  using assms
proof (induction index arbitrary: y_hat)
  case Nil
  then show ?case by simp
next
  case (Cons c index)
  from Cons.prems obtain b where b: "loc df c = Some b" "length b = q" by auto
  show ?case
  proof (cases "clusters = []")
    case True
    with Cons.prems have "y_hat = []" by simp
    with True Cons.IH [of y_hat] Cons.prems show ?thesis
      by (simp add: eq_mask_def)
  next
    case False
    with Cons.prems have Zne: "Z \<noteq> []" by auto
    with Cons.prems have nc: "ncols Z = q"
      by (cases Z) (auto simp: ncols_def)
    let ?y1 = "map (\<lambda>(v, r, k). if k = c then v + dotv r b else v) (zip y_hat (zip Z clusters))"
    have step: "predict_loop (Some df) Z clusters (c # index) y_hat
                  = predict_loop (Some df) Z clusters index ?y1"
      using False Cons.prems b nc
      by (simp add: Let_def scatter_add_correction) (simp add: eq_mask_def)
    have len1: "length ?y1 = length y_hat" using Cons.prems by simp
    from Cons.IH [of ?y1] Cons.prems len1
    obtain y' where y': "predict_loop (Some df) Z clusters index ?y1 = Inr y'"
      "length y' = length y_hat"
      "\<forall>j<length y_hat. y' ! j = ?y1 ! j
             + (if clusters ! j \<in> set index
                then (case loc df (clusters ! j) of Some b \<Rightarrow> dotv (Z ! j) b | None \<Rightarrow> 0)
                else 0)"
      by auto
    have "y' ! j = y_hat ! j
             + (if clusters ! j \<in> set (c # index)
                then (case loc df (clusters ! j) of Some b \<Rightarrow> dotv (Z ! j) b | None \<Rightarrow> 0)
                else 0)" if j: "j < length y_hat" for j
    proof -
      have "?y1 ! j = (if clusters ! j = c then y_hat ! j + dotv (Z ! j) b else y_hat ! j)"
        using j Cons.prems by simp
      moreover have "c \<notin> set index" using Cons.prems by simp
      ultimately show ?thesis using y'(3) j b by auto
    qed
    with step y' show ?thesis by auto
  qed
qed


lemma predict_rows:
  assumes "trained_rf (self w) = Some trf"
    and "cluster_counts (self w) = Some cc"
    and "trained_b (self w) = Some a"
    and "distinct (map fst cc)"
    and "\<forall>c\<in>set (map fst cc). \<exists>b. loc (heap w ! a) c = Some b \<and> length b = q"
    and "length Z = length clusters"
    and "length (rf_predict ext trf X) = length clusters"
    and "\<forall>r\<in>set Z. length r = q"
  shows "\<exists>y_hat. predict ext X Z clusters w = (Inr y_hat, w)
           \<and> length y_hat = length clusters
           \<and> (\<forall>j<length clusters.
                 y_hat ! j = rf_predict ext trf X ! j
                   + (if clusters ! j \<in> set (map fst cc)
                      then (case loc (heap w ! a) (clusters ! j) of
                              Some b \<Rightarrow> dotv (Z ! j) b | None \<Rightarrow> 0)
                      else 0))"
proof -
  from assms(6,7) have l1: "length Z = length (rf_predict ext trf X)" by simp
  from assms(7) have l2: "length clusters = length (rf_predict ext trf X)" by simp
  note rows = predict_loop_rows [OF l1 l2 assms(4) assms(5) assms(8), unfolded assms(7)]
  then obtain y' where y': "predict_loop (Some (heap w ! a)) Z clusters (map fst cc)
                          (rf_predict ext trf X) = Inr y'"
      "length y' = length clusters"
      "\<forall>j<length clusters.
          y' ! j = rf_predict ext trf X ! j
             + (if clusters ! j \<in> set (map fst cc)
                then (case loc (heap w ! a) (clusters ! j) of
                        Some b \<Rightarrow> dotv (Z ! j) b | None \<Rightarrow> 0)
                else 0)"
    by blast
  have "predict ext X Z clusters w = (Inr y', w)"
    using assms(1-3) y'(1) by (simp add: predict_def Let_def)
  with y'(2,3) show ?thesis by blast
qed

section \<open>One iteration of the loop in closed form\<close>

subsection \<open>Slices, tables and cluster counts\<close>

lemma select_eq_mask:
  "select a (eq_mask clusters i) = rows_of a clusters i"
  unfolding select_def eq_mask_def rows_of_def
proof (induction a arbitrary: clusters)
  case Nil
  then show ?case by simp
next
  case (Cons x a)
  then show ?case by (cases clusters) auto
qed

lemma map_of_overwrite:
  "map_of (map (\<lambda>(k, r). if k = c then (k, v) else (k, r)) df) c'
     = (if c' = c then map_option (\<lambda>_. v) (map_of df c) else map_of df c')"
proof (induction df)
  case Nil
  then show ?case by simp
next
  case (Cons p df)
  obtain k r where p: "p = (k, r)" by (cases p)
  show ?case using Cons.IH by (auto simp: p)
qed

lemma loc_set_loc:
  "loc (set_loc df c v) c' = (if c' = c then Some v else loc df c')"
proof (cases "c \<in> fst ` set df")
  case True
  then obtain r where "map_of df c = Some r"
    by (metis map_of_eq_None_iff not_Some_eq)
  with True show ?thesis
    by (simp add: loc_def set_loc_def map_of_overwrite)
next
  case False
  then have "map_of df c = None" by (simp add: map_of_eq_None_iff)
  with False show ?thesis
    by (auto simp: loc_def set_loc_def map_add_def split: option.splits)
qed

lemma distinct_value_counts: "distinct (map fst (value_counts clusters))"
  unfolding value_counts_def by (auto simp: distinct_map inj_on_def)

lemma set_value_counts: "set (map fst (value_counts clusters)) = set clusters"
  by (auto simp: value_counts_def image_iff)

lemma length_value_counts: "length (value_counts clusters) = nunique clusters"
  by (simp add: value_counts_def nunique_def length_remdups_card_conv)

lemma n_by_cluster_count: "n_by_cluster clusters i = count_list clusters i"
proof (cases "i \<in> set clusters")
  case True
  have "(i, count_list clusters i) \<in> set (value_counts clusters)"
    using True by (auto simp: value_counts_def)
  with distinct_value_counts [of clusters]
  have "map_of (value_counts clusters) i = Some (count_list clusters i)"
    by simp
  then show ?thesis by (simp add: n_by_cluster_def)
next
  case False
  then have "i \<notin> fst ` set (value_counts clusters)"
    using set_value_counts [of clusters] by simp
  then have "map_of (value_counts clusters) i = None"
    by (simp add: map_of_eq_None_iff)
  with False show ?thesis by (simp add: n_by_cluster_def)
qed


lemma foldl_add0_Some: "foldl add0 (Some M) Ms = Some (foldl mat_add M Ms)"
  by (induction Ms arbitrary: M) (simp_all add: add0_def)

lemma foldl_add0_None: "Ms \<noteq> [] \<Longrightarrow> foldl add0 None Ms = Some (mat_sum Ms)"
  by (cases Ms) (simp_all add: add0_def mat_sum_def foldl_add0_Some)

lemma loc_foldl_set_loc:
  "loc (foldl (\<lambda>df i. set_loc df i (b i)) df idx) c
     = (if c \<in> set idx then Some (b c) else loc df c)"
  by (induction idx arbitrary: df) (auto simp: loc_set_loc)

lemma m_step_eq:
  assumes "a < length h"
  shows "m_step ext Z y clusters f_hat s2 D a idx (h, S, A) =
     (h[a := foldl (\<lambda>df i. set_loc df i (spec_b_hat ext Z y clusters f_hat s2 D i)) (h ! a) idx],
      S + sum_list (map (spec_sigma2_term ext Z y clusters f_hat s2 D) idx),
      foldl add0 A (map (spec_D_term ext Z y clusters f_hat s2 D) idx))"
  using assms
proof (induction idx arbitrary: h S A)
  case Nil
  then show ?case by simp
next
  case (Cons i idx)
  let ?b = "spec_b_hat ext Z y clusters f_hat s2 D i"
  let ?h = "h[a := set_loc (h ! a) i ?b]"
  have len: "a < length ?h" using Cons.prems by simp
  have step: "m_step ext Z y clusters f_hat s2 D a (i # idx) (h, S, A)
      = m_step ext Z y clusters f_hat s2 D a idx
          (?h, S + spec_sigma2_term ext Z y clusters f_hat s2 D i,
           add0 A (spec_D_term ext Z y clusters f_hat s2 D i))"
    by (simp add: Let_def indices_by_cluster_def y_by_cluster_def Z_by_cluster_def
          I_by_cluster_def n_by_cluster_count select_eq_mask spec_b_hat_def spec_V_hat_def
          spec_sigma2_term_def spec_eps_hat_def spec_D_term_def)
  show ?case
    unfolding step Cons.IH [OF len]
    using Cons.prems by (simp add: add.assoc)
qed



lemma gll_loop_eq:
  "\<forall>c\<in>set idx. loc df c = Some (b c) \<Longrightarrow>
   gll_loop ext Z y clusters f_hat s2 D df idx g
     = Some (g + sum_list (map (\<lambda>i. spec_gll_term ext Z y clusters f_hat s2 D (b i) i) idx))"
proof (induction idx arbitrary: g)
  case Nil
  then show ?case by simp
next
  case (Cons i idx)
  then show ?case
    by (simp add: Let_def indices_by_cluster_def y_by_cluster_def Z_by_cluster_def
          I_by_cluster_def n_by_cluster_count select_eq_mask spec_gll_term_def add.assoc)
qed


lemma value_counts_Nil_iff: "value_counts clusters = [] \<longleftrightarrow> clusters = []"
  by (metis list.map_disc_iff set_empty set_value_counts)

lemma nunique_0_iff: "nunique clusters = 0 \<longleftrightarrow> clusters = []"
  by (simp add: nunique_def)

lemma em_iteration_InrD:
  assumes it: "em_iteration ext X Z clusters y a w l = Inr (w', l')"
    and a: "a < length (heap w)"
  shows "\<exists>y_star r g'.
      y_star_of Z clusters y a w = Some y_star
    \<and> rf_fit ext (n_estimators (self w)) (rng w) X y_star = (r, g')
    \<and> y \<noteq> [] \<and> clusters \<noteq> []
    \<and> length (oob_prediction ext r) = length y
    \<and> heap w' =
         (heap w)[a := foldl (\<lambda>df i. set_loc df i
                     (spec_b_hat ext Z y clusters (oob_prediction ext r)
                        (sigma2_hat l) (D_hat l) i))
                   (heap w ! a) (map fst (value_counts clusters))]
         @ [foldl (\<lambda>df i. set_loc df i
                     (spec_b_hat ext Z y clusters (oob_prediction ext r)
                        (sigma2_hat l) (D_hat l) i))
                   (heap w ! a) (map fst (value_counts clusters))]
    \<and> rng w' = g' \<and> rf_calls w' = Suc (rf_calls w)
    \<and> sigma2_hat l' =
         (1 / real (length y))
           * sum_list (map (spec_sigma2_term ext Z y clusters (oob_prediction ext r)
                              (sigma2_hat l) (D_hat l))
                         (map fst (value_counts clusters)))
    \<and> D_hat l' =
         scal (1 / real (nunique clusters))
           (mat_sum (map (spec_D_term ext Z y clusters (oob_prediction ext r)
                            (sigma2_hat l) (D_hat l))
                       (map fst (value_counts clusters))))
    \<and> rf l' = Some r
    \<and> self w' = (self w)
         \<lparr>b_hat_history := b_hat_history (self w) @ [length (heap w)],
          sigma2_hat_history := sigma2_hat_history (self w) @ [sigma2_hat l'],
          D_hat_history := D_hat_history (self w) @ [D_hat l'],
          gll_history := gll_history (self w)
            @ [sum_list (map (\<lambda>i. spec_gll_term ext Z y clusters (oob_prediction ext r)
                                (sigma2_hat l') (D_hat l')
                                (spec_b_hat ext Z y clusters (oob_prediction ext r)
                                   (sigma2_hat l) (D_hat l) i) i)
                           (map fst (value_counts clusters)))]\<rparr>"
proof -
  let ?index = "map fst (value_counts clusters)"
  from it obtain y_star where ys: "y_star_of Z clusters y a w = Some y_star"
    by (auto simp: em_iteration_def y_star_of_def Let_def split: option.splits)
  obtain r g' where rg: "rf_fit ext (n_estimators (self w)) (rng w) X y_star = (r, g')"
    by (cases "rf_fit ext (n_estimators (self w)) (rng w) X y_star")
  let ?f = "oob_prediction ext r"
  let ?b = "spec_b_hat ext Z y clusters ?f (sigma2_hat l) (D_hat l)"
  let ?tbl = "foldl (\<lambda>df i. set_loc df i (?b i)) (heap w ! a) ?index"
  from it ys rg have ne: "y \<noteq> []" "clusters \<noteq> []"
    by (auto simp: em_iteration_def y_star_of_def Let_def nunique_0_iff
             split: option.splits prod.splits if_splits)
  then have idx: "?index \<noteq> []" by (simp add: value_counts_Nil_iff)
  from it ys rg idx have lenf: "length ?f = length y"
    by (auto simp: em_iteration_def y_star_of_def Let_def
             split: option.splits prod.splits if_splits)
  have ms: "m_step ext Z y clusters ?f (sigma2_hat l) (D_hat l) a ?index (heap w, 0, None)
      = ((heap w)[a := ?tbl],
         sum_list (map (spec_sigma2_term ext Z y clusters ?f (sigma2_hat l) (D_hat l)) ?index),
         Some (mat_sum (map (spec_D_term ext Z y clusters ?f (sigma2_hat l) (D_hat l)) ?index)))"
    using idx by (simp add: m_step_eq [OF a] foldl_add0_None)
  have tbl: "((heap w)[a := ?tbl] @ [?tbl]) ! a = ?tbl"
    using a by (simp add: nth_append)
  have keys: "\<forall>c\<in>set ?index. loc ?tbl c = Some (?b c)"
    by (simp add: loc_foldl_set_loc)
  note gl = gll_loop_eq [OF keys, of ext Z y clusters ?f]
  show ?thesis
    using it ys rg ne lenf a
    unfolding em_iteration_def y_star_of_def Let_def
    by (auto simp: ms tbl gl nunique_0_iff split: option.splits if_splits)
qed







lemma em_iteration_start_eval:
  "em_iteration zero_rf [[0]] [[1]] [7] [2] 0 w_start l_start = Inr (w_after1, l_after1)"
  unfolding w_after1_def l_after1_def w_once_eval(2)
  by (simp add: eval_defs w_start_def l_start_def)

lemma spec_start_eval:
  "map fst (value_counts [7::nat]) = [7]"
  "spec_b_hat zero_rf [[1]] [2] [7::nat] [0] 1 [[1]] 7 = [1]"
  "spec_sigma2_term zero_rf [[1]] [2] [7::nat] [0] 1 [[1]] 7 = 3 / 2"
  "spec_D_term zero_rf [[1]] [2] [7::nat] [0] 1 [[1]] 7 = [[3 / 2]]"
  "spec_gll_term zero_rf [[1]] [2] [7::nat] [0] (3 / 2) [[3 / 2]] [1] 7 = 2 * ln (3 / 2) + 4 / 3"
  by (simp_all add: spec_b_hat_def spec_V_hat_def spec_sigma2_term_def spec_eps_hat_def
        spec_D_term_def spec_gll_term_def rows_of_def eval_defs)

lemma f_hat_start_eval: "f_hat_of zero_rf [[0]] [[1]] [7] [2] 0 w_start = Some [0]"
  by (simp add: f_hat_of_def y_star_of_def eval_defs w_start_def)

section \<open>The M-step\<close>



section \<open>The generalised log-likelihood\<close>

text \<open>
  C2. In every iteration of the loop that completes, the value appended to
  \<open>gll_history\<close> is the sum over the clusters of
  \<open>(y_i - f_hat_i - Z_i b_hat_i)^T pinv(R_i) (y_i - f_hat_i - Z_i b_hat_i)
   + b_hat_i^T pinv(D_hat) b_hat_i + logdet(D_hat) + logdet(R_i)\<close> with
  \<open>R_i = sigma2_hat I_i\<close>, where \<open>b_hat_i\<close> is the row of the coefficient table after
  the M-step of this iteration, \<open>sigma2_hat\<close> and \<open>D_hat\<close> are the values this
  iteration appended to their histories, and each log-determinant is the log-magnitude
  component of \<open>slogdet\<close>.
\<close>
theorem gll_of_iteration:
  assumes "em_iteration ext X Z clusters y a w l = Inr (w', l')"
    and "a < length (heap w)"
  shows "\<exists>f_hat b_hat.
       f_hat_of ext X Z clusters y a w = Some f_hat
     \<and> (\<forall>i\<in>set (map fst (value_counts clusters)). loc (heap w' ! a) i = Some (b_hat i))
     \<and> gll_history (self w') =
         gll_history (self w)
           @ [sum_list (map (\<lambda>i. spec_gll_term ext Z y clusters f_hat
                                (last (sigma2_hat_history (self w')))
                                (last (D_hat_history (self w'))) (b_hat i) i)
                          (map fst (value_counts clusters)))]
     \<and> last (sigma2_hat_history (self w')) = sigma2_hat l'
     \<and> last (D_hat_history (self w')) = D_hat l'"
proof -
  let ?index = "map fst (value_counts clusters)"
  from em_iteration_InrD [OF assms] obtain y_star r g' where
    ys: "y_star_of Z clusters y a w = Some y_star"
    and rg: "rf_fit ext (n_estimators (self w)) (rng w) X y_star = (r, g')"
    and hp: "heap w' =
         (heap w)[a := foldl (\<lambda>df i. set_loc df i
                     (spec_b_hat ext Z y clusters (oob_prediction ext r)
                        (sigma2_hat l) (D_hat l) i)) (heap w ! a) ?index]
         @ [foldl (\<lambda>df i. set_loc df i
                     (spec_b_hat ext Z y clusters (oob_prediction ext r)
                        (sigma2_hat l) (D_hat l) i)) (heap w ! a) ?index]"
    and slf: "self w' = (self w)
         \<lparr>b_hat_history := b_hat_history (self w) @ [length (heap w)],
          sigma2_hat_history := sigma2_hat_history (self w) @ [sigma2_hat l'],
          D_hat_history := D_hat_history (self w) @ [D_hat l'],
          gll_history := gll_history (self w)
            @ [sum_list (map (\<lambda>i. spec_gll_term ext Z y clusters (oob_prediction ext r)
                                (sigma2_hat l') (D_hat l')
                                (spec_b_hat ext Z y clusters (oob_prediction ext r)
                                   (sigma2_hat l) (D_hat l) i) i) ?index)]\<rparr>"
    by blast
  let ?b = "spec_b_hat ext Z y clusters (oob_prediction ext r) (sigma2_hat l) (D_hat l)"
  have f: "f_hat_of ext X Z clusters y a w = Some (oob_prediction ext r)"
    using ys rg by (simp add: f_hat_of_def)
  have rows: "\<forall>i\<in>set ?index. loc (heap w' ! a) i = Some (?b i)"
    using assms(2) unfolding hp by (simp add: nth_append loc_foldl_set_loc)
  have h: "last (sigma2_hat_history (self w')) = sigma2_hat l'"
    "last (D_hat_history (self w')) = D_hat l'"
    unfolding slf by simp_all
  have g: "gll_history (self w') =
         gll_history (self w)
           @ [sum_list (map (\<lambda>i. spec_gll_term ext Z y clusters (oob_prediction ext r)
                                (last (sigma2_hat_history (self w')))
                                (last (D_hat_history (self w'))) (?b i) i) ?index)]"
    unfolding h unfolding slf by simp
  from f rows g h show ?thesis by blast
qed

theorem gll_of_iteration_witness:
  "em_iteration zero_rf [[0]] [[1]] [7] [2] 0 w_start l_start = Inr (w_after1, l_after1)
   \<and> 0 < length (heap w_start)
   \<and> gll_history (self w_start) = []
   \<and> loc (heap w_after1 ! 0) 7 = Some [1]
   \<and> last (sigma2_hat_history (self w_after1)) = 3 / 2
   \<and> last (D_hat_history (self w_after1)) = [[3 / 2]]
   \<and> gll_history (self w_after1)
       = [spec_gll_term zero_rf [[1]] [2] [7::nat] [0] (3 / 2) [[3 / 2]] [1] 7]
   \<and> gll_history (self w_after1) = [2 * ln (3 / 2) + 4 / 3]"
proof -
  have h: "0 < length (heap w_start)" by (simp add: w_start_def)
  have g0: "gll_history (self w_start) = []" by (simp add: w_start_def MERF_init_def)
  have la: "sigma2_hat l_after1 = 3 / 2" "D_hat l_after1 = [[3 / 2]]"
    by (simp_all add: l_after1_def)
  from gll_of_iteration [OF em_iteration_start_eval h]
  obtain f_hat b_hat where f: "f_hat_of zero_rf [[0]] [[1]] [7] [2] 0 w_start = Some f_hat"
    and rows: "\<forall>i\<in>set (map fst (value_counts [7::nat])).
                 loc (heap w_after1 ! 0) i = Some (b_hat i)"
    and g: "gll_history (self w_after1) =
         gll_history (self w_start)
           @ [sum_list (map (\<lambda>i. spec_gll_term zero_rf [[1]] [2] [7] f_hat
                                (last (sigma2_hat_history (self w_after1)))
                                (last (D_hat_history (self w_after1))) (b_hat i) i)
                          (map fst (value_counts [7::nat])))]"
    and hs: "last (sigma2_hat_history (self w_after1)) = sigma2_hat l_after1"
      "last (D_hat_history (self w_after1)) = D_hat l_after1"
    by blast
  from f have fh: "f_hat = [0]" by (simp add: f_hat_start_eval)
  have tb: "loc (heap w_after1 ! 0) 7 = Some [1]"
    unfolding w_after1_def w_once_eval(2) by (simp add: loc_def)
  with rows have b7: "b_hat 7 = [1]" unfolding spec_start_eval(1) by simp
  have g1: "gll_history (self w_after1)
       = [spec_gll_term zero_rf [[1]] [2] [7::nat] [0] (3 / 2) [[3 / 2]] [1] 7]"
    using g unfolding hs la fh g0 spec_start_eval(1) by (simp add: b7)
  from em_iteration_start_eval h g0 tb hs la g1 show ?thesis
    by (simp add: spec_start_eval)
qed

section \<open>How many iterations the loop runs\<close>

lemma fit_loop_enters:
  assumes "length Z = length X" "length y = length X" "length clusters = length X"
  shows "fit_loop ext X Z clusters y w
           = em_loop ext X Z clusters y (length (heap w)) 0
               (world_at_loop Z clusters w) (locals_at_loop Z)"
  using assms by (simp add: fit_loop_def Let_def world_at_loop_def locals_at_loop_def)








section \<open>predict on a fitted model\<close>

lemma length_spec_b_hat [simp]:
  "length (spec_b_hat ext Z y clusters f_hat s2 D i) = length D"
  by (simp add: spec_b_hat_def Let_def mat_vec_def mat_mul_def mat_mul_T_def)

lemma length_spec_D_term [simp]:
  "length (spec_D_term ext Z y clusters f_hat s2 D i) = length D"
  by (simp add: spec_D_term_def Let_def mat_add_def mat_sub_def outer_def mat_mul_def
        mat_mul_T_def)

lemma length_foldl_mat_add:
  "\<forall>M\<in>set Ms. length M = length A \<Longrightarrow> length (foldl mat_add A Ms) = length A"
  by (induction Ms arbitrary: A) (simp_all add: mat_add_def)

lemma length_mat_sum:
  "Ms \<noteq> [] \<Longrightarrow> \<forall>M\<in>set Ms. length M = q \<Longrightarrow> length (mat_sum Ms) = q"
  by (cases Ms) (simp_all add: mat_sum_def length_foldl_mat_add)

lemma em_iteration_rows:
  assumes it: "em_iteration ext X Z clusters y a w l = Inr (w', l')"
    and a: "a < length (heap w)"
  shows "a < length (heap w')
       \<and> length (D_hat l') = length (D_hat l)
       \<and> (\<forall>c\<in>set clusters. \<exists>b. loc (heap w' ! a) c = Some b \<and> length b = length (D_hat l))"
proof -
  let ?index = "map fst (value_counts clusters)"
  from em_iteration_InrD [OF it a] obtain r where
    ne: "clusters \<noteq> []"
    and hp: "heap w' =
         (heap w)[a := foldl (\<lambda>df i. set_loc df i
                     (spec_b_hat ext Z y clusters (oob_prediction ext r)
                        (sigma2_hat l) (D_hat l) i)) (heap w ! a) ?index]
         @ [foldl (\<lambda>df i. set_loc df i
                     (spec_b_hat ext Z y clusters (oob_prediction ext r)
                        (sigma2_hat l) (D_hat l) i)) (heap w ! a) ?index]"
    and D: "D_hat l' =
         scal (1 / real (nunique clusters))
           (mat_sum (map (spec_D_term ext Z y clusters (oob_prediction ext r)
                            (sigma2_hat l) (D_hat l)) ?index))"
    by blast
  have idx: "?index \<noteq> []" using ne by (simp add: value_counts_Nil_iff)
  have "length (D_hat l') = length (D_hat l)"
    unfolding D using idx by (simp add: scal_def length_mat_sum)
  moreover have "\<forall>c\<in>set clusters. \<exists>b. loc (heap w' ! a) c = Some b
                     \<and> length b = length (D_hat l)"
    using a unfolding hp
    by (simp add: nth_append loc_foldl_set_loc set_value_counts [simplified])
  moreover have "a < length (heap w')" using a unfolding hp by simp
  ultimately show ?thesis by simp
qed

lemma em_loop_rows:
  "em_loop ext X Z clusters y a iteration w l = Inr (it', w', l')
   \<Longrightarrow> a < length (heap w) \<Longrightarrow> length (D_hat l) = q
   \<Longrightarrow> \<forall>c\<in>set clusters. \<exists>b. loc (heap w ! a) c = Some b \<and> length b = q
   \<Longrightarrow> \<forall>c\<in>set clusters. \<exists>b. loc (heap w' ! a) c = Some b \<and> length b = q"
proof (induction ext X Z clusters y a iteration w l rule: em_loop.induct)
  case (1 ext X Z clusters y a iteration w l)
  note unf = em_loop.simps [of ext X Z clusters y a iteration w l]
  show ?case
  proof (cases "iteration < max_iterations (self w) \<and> \<not> stop_flag l")
    case False
    with "1.prems" show ?thesis by (auto simp: unf)
  next
    case True
    show ?thesis
    proof (cases "em_iteration ext X Z clusters y a w l")
      case (Inl e)
      with True "1.prems"(1) show ?thesis by (simp add: unf)
    next
      case (Inr wl)
      obtain w1 l1 where wl: "wl = (w1, l1)" by (cases wl)
      have step: "em_iteration ext X Z clusters y a w l = Inr (w1, l1)"
        using Inr wl by simp
      have rest: "em_loop ext X Z clusters y a (iteration + 1) w1 l1 = Inr (it', w', l')"
        using "1.prems"(1) True step by (simp add: unf)
      note rows = em_iteration_rows [OF step "1.prems"(2)]
      from rows "1.prems"(3) have a1: "a < length (heap w1)" and d1: "length (D_hat l1) = q"
        and r1: "\<forall>c\<in>set clusters. \<exists>b. loc (heap w1 ! a) c = Some b \<and> length b = q"
        by simp_all
      from "1.IH" [OF True step refl rest a1 d1 r1] show ?thesis .
    qed
  qed
qed

lemma length_eye [simp]: "length (eye n) = n"
  by (simp add: eye_def)

lemma fit_gives_fitted_model:
  assumes "fit ext X Z clusters y w = (Inr (), w')"
  shows "\<exists>r. trained_rf (self w') = Some r
     \<and> cluster_counts (self w') = Some (value_counts clusters)
     \<and> trained_b (self w') = Some (length (heap w))
     \<and> (\<forall>c\<in>set clusters. \<exists>b. loc (heap w' ! length (heap w)) c = Some b
                               \<and> length b = ncols Z)"
proof -
  let ?a = "length (heap w)"
  from assms have shp: "length Z = length X" "length y = length X"
    "length clusters = length X"
    by (auto simp: fit_def fit_loop_def split: if_splits)
  from assms obtain n w1 l1 r where
    fl: "fit_loop ext X Z clusters y w = Inr (n, w1, l1)"
    and rf: "rf l1 = Some r"
    and w': "w' = w1\<lparr>self := (self w1)\<lparr>cluster_counts := Some (value_counts clusters),
                       trained_rf := Some r, trained_b := Some ?a\<rparr>\<rparr>"
    by (auto simp: fit_def Let_def split: sum.splits prod.splits option.splits)
  have loop: "em_loop ext X Z clusters y ?a 0 (world_at_loop Z clusters w) (locals_at_loop Z)
                = Inr (n, w1, l1)"
    using fl unfolding fit_loop_enters [OF shp] .
  have a0: "?a < length (heap (world_at_loop Z clusters w))"
    by (simp add: world_at_loop_def)
  have d0: "length (D_hat (locals_at_loop Z :: 'b locals)) = ncols Z"
    by (simp add: locals_at_loop_def)
  let ?xs = "map fst (value_counts clusters)"
  let ?ys = "replicate (nunique clusters) (replicate (ncols Z) (0::real))"
  have len: "length ?xs = length ?ys" by (simp add: length_value_counts)
  have r0: "\<forall>c\<in>set clusters. \<exists>b. loc (heap (world_at_loop Z clusters w) ! ?a) c = Some b
                 \<and> length b = ncols Z"
  proof
    fix c assume "c \<in> set clusters"
    then have "c \<in> set ?xs" using set_value_counts [of clusters] by simp
    with map_of_zip_is_Some [OF len, of c] obtain b where b: "map_of (zip ?xs ?ys) c = Some b"
      by auto
    then have "(c, b) \<in> set (zip ?xs ?ys)" by (rule map_of_SomeD)
    then have "b \<in> set ?ys" by (rule set_zip_rightD)
    then have "length b = ncols Z" by auto
    with b show "\<exists>b. loc (heap (world_at_loop Z clusters w) ! ?a) c = Some b
                 \<and> length b = ncols Z"
      by (simp add: world_at_loop_def loc_def)
  qed
  from em_loop_rows [OF loop a0 d0 r0] w' show ?thesis by simp
qed

text \<open>
  C7. Let \<^verbatim>\<open>fit\<close> have returned on training labels \<open>clusters0\<close> and a design
  matrix \<open>Z0\<close>, and let the inputs of \<^verbatim>\<open>predict\<close> have one label, one row of as
  many random-effect covariates as \<open>Z0\<close> has columns and one base prediction per row.
  Then \<^verbatim>\<open>predict\<close> returns without error, whichever training clusters are absent
  from the input, and leaves the world unchanged. A row whose label is a training
  cluster gets the regressor's prediction plus the product of its \<open>Z\<close> row with the
  coefficients \<open>trained_b\<close> holds for that cluster; a row whose label was not seen in
  training gets exactly the regressor's prediction.
\<close>
theorem predict_known_and_unseen_clusters:
  assumes fitted: "fit ext X0 Z0 clusters0 y0 w0 = (Inr (), w)"
    and trf: "trained_rf (self w) = Some trf"
    and lenZ: "length Z = length clusters"
    and base: "length (rf_predict ext trf X) = length clusters"
    and cols: "\<forall>r\<in>set Z. length r = ncols Z0"
  shows "\<exists>y_hat. predict ext X Z clusters w = (Inr y_hat, w)
           \<and> length y_hat = length clusters
           \<and> (\<forall>j<length clusters.
                 if clusters ! j \<in> set clusters0
                 then \<exists>b. trained_b_loc w (clusters ! j) = Some b
                          \<and> y_hat ! j = rf_predict ext trf X ! j + dotv (Z ! j) b
                 else y_hat ! j = rf_predict ext trf X ! j)"
proof -
  let ?a = "length (heap w0)"
  from fit_gives_fitted_model [OF fitted] have
    cc: "cluster_counts (self w) = Some (value_counts clusters0)"
    and tb: "trained_b (self w) = Some ?a"
    and rows: "\<forall>c\<in>set clusters0. \<exists>b. loc (heap w ! ?a) c = Some b \<and> length b = ncols Z0"
    by auto
  have rows': "\<forall>c\<in>set (map fst (value_counts clusters0)).
                 \<exists>b. loc (heap w ! ?a) c = Some b \<and> length b = ncols Z0"
    using rows unfolding set_value_counts .
  from predict_rows
         [OF trf cc tb distinct_value_counts rows' lenZ base cols]
  obtain y_hat where p: "predict ext X Z clusters w = (Inr y_hat, w)"
    and l: "length y_hat = length clusters"
    and v: "\<forall>j<length clusters.
                 y_hat ! j = rf_predict ext trf X ! j
                   + (if clusters ! j \<in> set (map fst (value_counts clusters0))
                      then (case loc (heap w ! ?a) (clusters ! j) of
                              Some b \<Rightarrow> dotv (Z ! j) b | None \<Rightarrow> 0)
                      else 0)"
    by blast
  have "if clusters ! j \<in> set clusters0
        then \<exists>b. trained_b_loc w (clusters ! j) = Some b
                 \<and> y_hat ! j = rf_predict ext trf X ! j + dotv (Z ! j) b
        else y_hat ! j = rf_predict ext trf X ! j" if j: "j < length clusters" for j
  proof (cases "clusters ! j \<in> set clusters0")
    case True
    with rows obtain b where b: "loc (heap w ! ?a) (clusters ! j) = Some b" by blast
    with v j True tb show ?thesis
      unfolding set_value_counts by (simp add: trained_b_loc_def)
  next
    case False
    with v j show ?thesis unfolding set_value_counts by simp
  qed
  with p l show ?thesis by blast
qed

theorem predict_known_and_unseen_clusters_witness:
  "fit zero_rf [[0]] [[1]] [7] [2] (w_fresh None 1) = (Inr (), w_once)
   \<and> trained_rf (self w_once) = Some ([2], 0)
   \<and> trained_b_loc w_once 7 = Some [1]
   \<and> predict zero_rf [[0], [0], [0]] [[1], [2], [3]] [7, 8, 7] w_once = (Inr [1, 0, 3], w_once)
   \<and> predict zero_rf [[0]] [[5]] [8] w_once = (Inr [0], w_once)"
proof -
  have m: "trained_rf (self w_once) = Some ([2], 0)"
    "trained_b_loc w_once 7 = Some [1]"
    unfolding w_once_eval(2) by (simp_all add: trained_b_loc_def loc_def)
  have base: "rf_predict zero_rf ([2], 0) X = map (\<lambda>_. 0) X" for X
    by (simp add: zero_rf_def)
  have l3: "length [[1], [2], [3::real]] = length [7, 8, 7::nat]" by simp
  have b3: "length (rf_predict zero_rf ([2], 0) [[0], [0], [0]]) = length [7, 8, 7::nat]"
    by (simp add: base)
  have z3: "\<forall>r\<in>set [[1], [2], [3::real]]. length r = ncols [[1]]"
    by (simp add: ncols_def)
  from predict_known_and_unseen_clusters [OF w_once_eval(1) m(1) l3 b3 z3]
  obtain y3 where y3: "predict zero_rf [[0], [0], [0]] [[1], [2], [3]] [7, 8, 7] w_once
                         = (Inr y3, w_once)" "length y3 = length [7, 8, 7::nat]"
      "\<forall>j<length [7, 8, 7::nat].
           if [7, 8, 7::nat] ! j \<in> set [7]
           then \<exists>b. trained_b_loc w_once ([7, 8, 7] ! j) = Some b
                    \<and> y3 ! j = rf_predict zero_rf ([2], 0) [[0], [0], [0]] ! j
                               + dotv ([[1], [2], [3]] ! j) b
           else y3 ! j = rf_predict zero_rf ([2], 0) [[0], [0], [0]] ! j"
    by blast
  have e0: "y3 ! 0 = 1"
    using y3(3) [rule_format, of 0] m(2) by (simp add: base dotv_def)
  have e1: "y3 ! Suc 0 = 0"
    using y3(3) [rule_format, of "Suc 0"] by (simp add: base)
  have e2: "y3 ! Suc (Suc 0) = 3"
    using y3(3) [rule_format, of "Suc (Suc 0)"] m(2) by (simp add: base dotv_def)
  from y3(2) e0 e1 e2 have "y3 = [1, 0, 3]"
    by (auto simp: list_eq_iff_nth_eq less_Suc_eq)
  with y3(1) have p3: "predict zero_rf [[0], [0], [0]] [[1], [2], [3]] [7, 8, 7] w_once
                         = (Inr [1, 0, 3], w_once)" by simp
  have p1: "predict zero_rf [[0]] [[5]] [8] w_once = (Inr [0], w_once)"
    unfolding w_once_eval(2) by (simp add: eval_defs)
  from w_once_eval(1) m p3 p1 show ?thesis by simp
qed

end
